theory Spec2Isabelle
  imports Complex_Main "HOL-Library.AList"
begin

section \<open>Values and errors\<close>

text \<open>
  The dashboard works on pandas columns of 64-bit floats. A cell read from a CSV file
  is a number, an infinity, or NaN (pandas' marker of a missing cell). The comparisons
  \<open>==\<close>, \<open><\<close> and \<open>>=\<close> of IEEE floats are exact, and every one of them is false as
  soon as one side is NaN. Arithmetic is the arithmetic of the reals: rounding, overflow
  and the sign of zero are left out.
\<close>

datatype npfloat = NaN | NegInf | Fin real | PosInf

datatype py_error = KeyError string | ValueError

fun fl_eq :: "npfloat \<Rightarrow> npfloat \<Rightarrow> bool" where
  "fl_eq NaN _ = False"
| "fl_eq _ NaN = False"
| "fl_eq a b = (a = b)"

fun fl_lt :: "npfloat \<Rightarrow> npfloat \<Rightarrow> bool" where
  "fl_lt NaN _ = False"
| "fl_lt _ NaN = False"
| "fl_lt PosInf _ = False"
| "fl_lt _ NegInf = False"
| "fl_lt NegInf _ = True"
| "fl_lt (Fin x) (Fin y) = (x < y)"
| "fl_lt (Fin x) PosInf = True"

definition fl_ge :: "npfloat \<Rightarrow> npfloat \<Rightarrow> bool" where
  "fl_ge a b = (fl_lt b a \<or> fl_eq a b)"

definition fl_ne :: "npfloat \<Rightarrow> npfloat \<Rightarrow> bool" where
  "fl_ne a b = (\<not> fl_eq a b)"

fun fl_add :: "npfloat \<Rightarrow> npfloat \<Rightarrow> npfloat" where
  "fl_add NaN _ = NaN"
| "fl_add _ NaN = NaN"
| "fl_add PosInf NegInf = NaN"
| "fl_add NegInf PosInf = NaN"
| "fl_add PosInf _ = PosInf"
| "fl_add _ PosInf = PosInf"
| "fl_add NegInf _ = NegInf"
| "fl_add _ NegInf = NegInf"
| "fl_add (Fin x) (Fin y) = Fin (x + y)"

text \<open>
  numpy's true division. Dividing by zero is no error there (a warning is printed):
  the quotient is an infinity, or NaN for \<open>0 / 0\<close>. The zero divisors of this program
  are sums \<open>1.0 + z\<close>, which are \<open>+0.0\<close>.
\<close>

fun fl_div :: "npfloat \<Rightarrow> npfloat \<Rightarrow> npfloat" where
  "fl_div NaN _ = NaN"
| "fl_div _ NaN = NaN"
| "fl_div (Fin x) (Fin d) =
     (if d \<noteq> 0 then Fin (x / d)
      else if x = 0 then NaN else if 0 < x then PosInf else NegInf)"
| "fl_div (Fin x) _ = Fin 0"
| "fl_div PosInf (Fin d) = (if 0 \<le> d then PosInf else NegInf)"
| "fl_div NegInf (Fin d) = (if 0 \<le> d then NegInf else PosInf)"
| "fl_div _ _ = NaN"

section \<open>Element-wise array operations\<close>

definition np_eq :: "npfloat list \<Rightarrow> npfloat \<Rightarrow> bool list" where
  "np_eq xs c = map (\<lambda>x. fl_eq x c) xs"

definition np_ne :: "npfloat list \<Rightarrow> npfloat \<Rightarrow> bool list" where
  "np_ne xs c = map (\<lambda>x. fl_ne x c) xs"

definition np_lt :: "npfloat list \<Rightarrow> npfloat \<Rightarrow> bool list" where
  "np_lt xs c = map (\<lambda>x. fl_lt x c) xs"

definition np_ge :: "npfloat list \<Rightarrow> npfloat \<Rightarrow> bool list" where
  "np_ge xs c = map (\<lambda>x. fl_ge x c) xs"

definition str_eq :: "string list \<Rightarrow> string \<Rightarrow> bool list" where
  "str_eq xs c = map (\<lambda>x. x = c) xs"

definition np_or :: "bool list \<Rightarrow> bool list \<Rightarrow> bool list" where
  "np_or a b = map2 (\<or>) a b"

definition np_and :: "bool list \<Rightarrow> bool list \<Rightarrow> bool list" where
  "np_and a b = map2 (\<and>) a b"

definition np_not :: "bool list \<Rightarrow> bool list" where
  "np_not a = map Not a"

text \<open>Boolean-mask indexing \<open>arr[mask]\<close>: the elements whose mask bit is set, in order.\<close>

definition np_select :: "'a list \<Rightarrow> bool list \<Rightarrow> 'a list" where
  "np_select arr sel = map fst (filter snd (zip arr sel))"

section \<open>The best-model label\<close>

text \<open>
  \<open>dfl_xray['best_model'].fillna("").astype(str).str.upper().str.strip()\<close>: a missing
  label becomes the empty string, letters are put in upper case, then white space is
  removed at both ends. A character is a code point below 256.
\<close>

definition fillna :: "string option \<Rightarrow> string" where
  "fillna v = (case v of None \<Rightarrow> [] | Some s \<Rightarrow> s)"

definition lower_letters :: "string" where
  "lower_letters =
     ''abcdefghijklmnopqrstuvwxyz'' @
     [CHR 0xE0, CHR 0xE1, CHR 0xE2, CHR 0xE3, CHR 0xE4, CHR 0xE5, CHR 0xE6, CHR 0xE7,
      CHR 0xE8, CHR 0xE9, CHR 0xEA, CHR 0xEB, CHR 0xEC, CHR 0xED, CHR 0xEE, CHR 0xEF,
      CHR 0xF0, CHR 0xF1, CHR 0xF2, CHR 0xF3, CHR 0xF4, CHR 0xF5, CHR 0xF6, CHR 0xF8,
      CHR 0xF9, CHR 0xFA, CHR 0xFB, CHR 0xFC, CHR 0xFD, CHR 0xFE]"

definition upper_letters :: "string" where
  "upper_letters =
     ''ABCDEFGHIJKLMNOPQRSTUVWXYZ'' @
     [CHR 0xC0, CHR 0xC1, CHR 0xC2, CHR 0xC3, CHR 0xC4, CHR 0xC5, CHR 0xC6, CHR 0xC7,
      CHR 0xC8, CHR 0xC9, CHR 0xCA, CHR 0xCB, CHR 0xCC, CHR 0xCD, CHR 0xCE, CHR 0xCF,
      CHR 0xD0, CHR 0xD1, CHR 0xD2, CHR 0xD3, CHR 0xD4, CHR 0xD5, CHR 0xD6, CHR 0xD8,
      CHR 0xD9, CHR 0xDA, CHR 0xDB, CHR 0xDC, CHR 0xDD, CHR 0xDE]"

text \<open>
  \<open>str.upper\<close> on one character. The sharp s (0xDF) becomes \<open>SS\<close>. The capitals of the
  micro sign (0xB5) and of y with diaeresis (0xFF) are code points above 255, which
  this type does not have: the two are left as they are. Like their capitals they are
  neither white space nor ASCII letters, so the comparison of a label with \<open>PL\<close>,
  \<open>BB\<close> and the empty string is not affected.
\<close>

definition upper_char :: "char \<Rightarrow> string" where
  "upper_char c =
     (if c = CHR 0xDF then ''SS''
      else case map_of (zip lower_letters upper_letters) c of
             None \<Rightarrow> [c]
           | Some u \<Rightarrow> [u])"

definition upper :: "string \<Rightarrow> string" where
  "upper s = concat (map upper_char s)"

text \<open>
  The characters that \<open>str.strip\<close> removes: codes 9 to 13, 28 to 32, the next-line
  control 0x85 and the no-break space 0xA0.
\<close>

definition is_space :: "char \<Rightarrow> bool" where
  "is_space c =
     (c \<in> set [CHR 0x09, CHR 0x0A, CHR 0x0B, CHR 0x0C, CHR 0x0D,
                CHR 0x1C, CHR 0x1D, CHR 0x1E, CHR 0x1F, CHR '' '',
                CHR 0x85, CHR 0xA0])"

definition strip :: "string \<Rightarrow> string" where
  "strip s = rev (dropWhile is_space (rev (dropWhile is_space s)))"

definition best_model_raw :: "string option list \<Rightarrow> string list" where
  "best_model_raw col = map (\<lambda>v. strip (upper (fillna v))) col"

section \<open>The X-ray classifier\<close>

record masks =
  ul_mask :: "bool list"
  det_mask :: "bool list"
  pl_mask :: "bool list"
  bb_mask :: "bool list"
  src_det_mask :: "bool list"

definition xray_masks :: "npfloat list \<Rightarrow> npfloat list \<Rightarrow> string list \<Rightarrow> real \<Rightarrow> masks" where
  "xray_masks src_flux src_snr best_model snr_threshold =
     (let ul = np_or (np_eq src_flux (Fin 0)) (np_lt src_snr (Fin snr_threshold));
          det = np_and (np_ge src_snr (Fin snr_threshold)) (np_not ul)
      in \<lparr> ul_mask = ul,
           det_mask = det,
           pl_mask = np_and det (str_eq best_model ''PL''),
           bb_mask = np_and det (str_eq best_model ''BB''),
           src_det_mask = np_and det (str_eq best_model []) \<rparr>)"

text \<open>The number of the four plotted groups that hold record \<open>i\<close>.\<close>

definition group_count :: "masks \<Rightarrow> nat \<Rightarrow> nat" where
  "group_count m i =
     length (filter id [src_det_mask m ! i, pl_mask m ! i, bb_mask m ! i, ul_mask m ! i])"

text \<open>The rows that a mask selects, as a set of row numbers.\<close>

definition group :: "bool list \<Rightarrow> nat set" where
  "group sel = set (filter (\<lambda>i. sel ! i) [0..<length sel])"

section \<open>The X-ray light curve of one object\<close>

text \<open>
  The table that \<open>pd.read_csv\<close> returns: a number of rows and named columns, each as long
  as the table. The numeric columns hold floats, the text columns hold strings, with
  \<open>None\<close> for a missing cell.
\<close>

record dataframe =
  nrows :: nat
  fcols :: "(string \<times> npfloat list) list"
  scols :: "(string \<times> string option list) list"

text \<open>\<open>df[c].values\<close> raises KeyError when the table has no column \<open>c\<close>.\<close>

definition fcol :: "dataframe \<Rightarrow> string \<Rightarrow> py_error + npfloat list" where
  "fcol df c = (case map_of (fcols df) c of None \<Rightarrow> Inl (KeyError c) | Some xs \<Rightarrow> Inr xs)"

definition scol :: "dataframe \<Rightarrow> string \<Rightarrow> py_error + string option list" where
  "scol df c = (case map_of (scols df) c of None \<Rightarrow> Inl (KeyError c) | Some xs \<Rightarrow> Inr xs)"

definition np_zeros :: "nat \<Rightarrow> npfloat list" where
  "np_zeros n = replicate n (Fin 0)"

text \<open>
  \<open>df[c].values if c in df.columns else np.zeros(len(df))\<close>, and likewise
  \<open>df.get(c, pd.Series(0, index=df.index)).values\<close>.
\<close>

definition fcol_or_zeros :: "dataframe \<Rightarrow> string \<Rightarrow> npfloat list" where
  "fcol_or_zeros df c =
     (case map_of (fcols df) c of None \<Rightarrow> np_zeros (nrows df) | Some xs \<Rightarrow> xs)"

text \<open>\<open>df[c] = xs\<close>: the column is replaced, or added after the others.\<close>

definition set_column :: "dataframe \<Rightarrow> string \<Rightarrow> npfloat list \<Rightarrow> dataframe" where
  "set_column df c xs = df\<lparr>fcols := AList.update c xs (fcols df)\<rparr>"

definition optional_columns :: "string list" where
  "optional_columns =
     [''src_flux_SNR'', ''src_flux_UL'',
      ''flux_fit_pl'', ''flux_fit_pl_errinf'', ''flux_fit_pl_errsup'',
      ''flux_fit_bb'', ''flux_fit_bb_errinf'', ''flux_fit_bb_errsup'']"

definition required_columns :: "string list" where
  "required_columns =
     [''mjd_start'', ''mjd_stop'', ''src_flux'', ''src_flux_errinf'', ''src_flux_errsup'']"

definition has_required :: "dataframe \<Rightarrow> bool" where
  "has_required df =
     (list_all (\<lambda>c. map_of (fcols df) c \<noteq> None) required_columns \<and>
      map_of (scols df) ''best_model'' \<noteq> None)"

record xray_points =
  mjd_src :: "npfloat list"
  flux_src :: "npfloat list"
  errlo_src :: "npfloat list"
  errhi_src :: "npfloat list"
  mjd_pl :: "npfloat list"
  flux_pl :: "npfloat list"
  errlo_pl :: "npfloat list"
  errhi_pl :: "npfloat list"
  mjd_bb :: "npfloat list"
  flux_bb :: "npfloat list"
  errlo_bb :: "npfloat list"
  errhi_bb :: "npfloat list"
  mjd_ulims :: "npfloat list"
  ulims :: "npfloat list"

text \<open>
  The body of the \<open>try\<close> block of panel 3 of \<open>update_individual_plots\<close>, up to the
  arrays that are plotted. An exception, here the KeyError of a column that is not
  there, leaves the block; the handler then shows "Error loading X-ray data".
\<close>

definition xray_lightcurve :: "dataframe \<Rightarrow> real \<Rightarrow> py_error + xray_points" where
  "xray_lightcurve dfl_xray snr_threshold =
     (case fcol dfl_xray ''mjd_start'' of Inl e \<Rightarrow> Inl e | Inr mjd_start \<Rightarrow>
     (case fcol dfl_xray ''mjd_stop'' of Inl e \<Rightarrow> Inl e | Inr mjd_stop \<Rightarrow>
     (case fcol dfl_xray ''src_flux'' of Inl e \<Rightarrow> Inl e | Inr src_flux \<Rightarrow>
     (case fcol dfl_xray ''src_flux_errinf'' of Inl e \<Rightarrow> Inl e | Inr src_err_lo \<Rightarrow>
     (case fcol dfl_xray ''src_flux_errsup'' of Inl e \<Rightarrow> Inl e | Inr src_err_hi \<Rightarrow>
     (case scol dfl_xray ''best_model'' of Inl e \<Rightarrow> Inl e | Inr best_model \<Rightarrow>
      (let mjd_vals = map2 (\<lambda>a b. fl_div (fl_add a b) (Fin 2)) mjd_start mjd_stop;
           src_snr = fcol_or_zeros dfl_xray ''src_flux_SNR'';
           src_ul_vals = fcol_or_zeros dfl_xray ''src_flux_UL'';
           flux_fit_pl = fcol_or_zeros dfl_xray ''flux_fit_pl'';
           fit_pl_err_lo = fcol_or_zeros dfl_xray ''flux_fit_pl_errinf'';
           fit_pl_err_hi = fcol_or_zeros dfl_xray ''flux_fit_pl_errsup'';
           flux_fit_bb = fcol_or_zeros dfl_xray ''flux_fit_bb'';
           fit_bb_err_lo = fcol_or_zeros dfl_xray ''flux_fit_bb_errinf'';
           fit_bb_err_hi = fcol_or_zeros dfl_xray ''flux_fit_bb_errsup'';
           m = xray_masks src_flux src_snr (best_model_raw best_model) snr_threshold
       in Inr \<lparr> mjd_src = np_select mjd_vals (src_det_mask m),
                 flux_src = np_select src_flux (src_det_mask m),
                 errlo_src = np_select src_err_lo (src_det_mask m),
                 errhi_src = np_select src_err_hi (src_det_mask m),
                 mjd_pl = np_select mjd_vals (pl_mask m),
                 flux_pl = np_select flux_fit_pl (pl_mask m),
                 errlo_pl = np_select fit_pl_err_lo (pl_mask m),
                 errhi_pl = np_select fit_pl_err_hi (pl_mask m),
                 mjd_bb = np_select mjd_vals (bb_mask m),
                 flux_bb = np_select flux_fit_bb (bb_mask m),
                 errlo_bb = np_select fit_bb_err_lo (bb_mask m),
                 errhi_bb = np_select fit_bb_err_hi (bb_mask m),
                 mjd_ulims = np_select mjd_vals (ul_mask m),
                 ulims = np_select src_ul_vals (ul_mask m) \<rparr>)))))))"

section \<open>Unit conversion\<close>

definition AB_magnitude_to_flux :: "real \<Rightarrow> real \<Rightarrow> real \<times> real" where
  "AB_magnitude_to_flux mag err =
     (let flux = 3631 * 10 powr (- 0.4 * mag);
          flux_err = flux * ln 10 * 0.4 * err
      in (flux, flux_err))"

text \<open>A Python dict with string keys; \<open>d[k]\<close> raises KeyError on a key that is not there.\<close>

definition dict_get :: "(string \<times> 'v) list \<Rightarrow> string \<Rightarrow> py_error + 'v" where
  "dict_get d k = (case map_of d k of None \<Rightarrow> Inl (KeyError k) | Some v \<Rightarrow> Inr v)"

definition zeropoints_new :: "(string \<times> (string \<times> real) list) list" where
  "zeropoints_new =
     [(''vv'', [(''vega'', 17.89), (''ab'', 17.88)]),
      (''bb'', [(''vega'', 19.11), (''ab'', 18.98)]),
      (''uu'', [(''vega'', 18.34), (''ab'', 19.36)]),
      (''w1'', [(''vega'', 17.44), (''ab'', 18.95)]),
      (''m2'', [(''vega'', 16.85), (''ab'', 18.54)]),
      (''w2'', [(''vega'', 17.38), (''ab'', 19.11)])]"

definition swift_vega_to_ab :: "real \<Rightarrow> string \<Rightarrow> py_error + real" where
  "swift_vega_to_ab m_vega filt =
     (case dict_get zeropoints_new filt of Inl e \<Rightarrow> Inl e | Inr zp_a \<Rightarrow>
     (case dict_get zp_a ''ab'' of Inl e \<Rightarrow> Inl e | Inr ab \<Rightarrow>
     (case dict_get zeropoints_new filt of Inl e \<Rightarrow> Inl e | Inr zp_v \<Rightarrow>
     (case dict_get zp_v ''vega'' of Inl e \<Rightarrow> Inl e | Inr vega \<Rightarrow>
      (let offset = ab - vega in Inr (m_vega + offset))))))"

definition uvot_filters :: "string list" where
  "uvot_filters = [''w2'', ''m2'', ''w1'', ''uu'', ''bb'', ''vv'']"

section \<open>The spectrum in the rest frame\<close>

text \<open>
  A cell of the catalogue row is a float (NaN when the cell is empty) or a text.
  Python's \<open>float\<close> on a text is a parameter \<open>parse\<close> of the model: it gives the
  number that the text denotes, and \<open>None\<close> where \<open>float\<close> raises ValueError.
\<close>

datatype pyobj = Float npfloat | Str string

definition notna :: "pyobj \<Rightarrow> bool" where
  "notna v = (v \<noteq> Float NaN)"

definition py_float :: "(string \<Rightarrow> npfloat option) \<Rightarrow> pyobj \<Rightarrow> py_error + npfloat" where
  "py_float parse v =
     (case v of
        Float x \<Rightarrow> Inr x
      | Str s \<Rightarrow> (case parse s of None \<Rightarrow> Inl ValueError | Some x \<Rightarrow> Inr x))"

text \<open>
  \<open>try: z = float(row['Redshift']) if pd.notna(row['Redshift']) else 0.0\<close>
  \<open>except: z = 0.0\<close>
\<close>

definition redshift :: "(string \<Rightarrow> npfloat option) \<Rightarrow> (string \<times> pyobj) list \<Rightarrow> npfloat" where
  "redshift parse row =
     (case (case dict_get row ''Redshift'' of Inl e \<Rightarrow> Inl e | Inr c \<Rightarrow>
            if notna c
            then (case dict_get row ''Redshift'' of Inl e \<Rightarrow> Inl e | Inr v \<Rightarrow> py_float parse v)
            else Inr (Fin 0))
      of Inl e \<Rightarrow> Fin 0 | Inr z \<Rightarrow> z)"

definition wavelength_rest :: "npfloat list \<Rightarrow> npfloat \<Rightarrow> npfloat list" where
  "wavelength_rest wavelength_obs z = map (\<lambda>w. fl_div w (fl_add (Fin 1) z)) wavelength_obs"

text \<open>The trace of one spectrum file: its \<open>x\<close> and \<open>y\<close> arrays.\<close>

definition spectrum_trace :: "npfloat list \<Rightarrow> npfloat list \<Rightarrow> npfloat \<Rightarrow> npfloat list \<times> npfloat list" where
  "spectrum_trace wavelength_obs intensity z = (wavelength_rest wavelength_obs z, intensity)"

section \<open>Properties of the X-ray classifier\<close>

lemma mask_lengths:
  assumes "length src_snr = length src_flux" "length best_model = length src_flux"
  shows "length (ul_mask (xray_masks src_flux src_snr best_model t)) = length src_flux"
    "length (det_mask (xray_masks src_flux src_snr best_model t)) = length src_flux"
    "length (pl_mask (xray_masks src_flux src_snr best_model t)) = length src_flux"
    "length (bb_mask (xray_masks src_flux src_snr best_model t)) = length src_flux"
    "length (src_det_mask (xray_masks src_flux src_snr best_model t)) = length src_flux"
  using assms
  by (simp_all add: xray_masks_def Let_def np_or_def np_and_def np_not_def np_eq_def np_lt_def
      np_ge_def str_eq_def)

lemma ul_mask_nth:
  assumes "length src_snr = length src_flux" "i < length src_flux"
  shows "ul_mask (xray_masks src_flux src_snr best_model t) ! i =
         (fl_eq (src_flux ! i) (Fin 0) \<or> fl_lt (src_snr ! i) (Fin t))"
  using assms
  by (simp add: xray_masks_def Let_def np_or_def np_eq_def np_lt_def)

lemma det_mask_nth:
  assumes "length src_snr = length src_flux" "i < length src_flux"
  shows "det_mask (xray_masks src_flux src_snr best_model t) ! i =
         (fl_ge (src_snr ! i) (Fin t) \<and>
          \<not> (fl_eq (src_flux ! i) (Fin 0) \<or> fl_lt (src_snr ! i) (Fin t)))"
  using assms
  by (simp add: xray_masks_def Let_def np_or_def np_and_def np_not_def np_eq_def np_lt_def
      np_ge_def)

lemma sub_mask_nth:
  assumes "length src_snr = length src_flux" "length best_model = length src_flux"
    "i < length src_flux"
  shows "pl_mask (xray_masks src_flux src_snr best_model t) ! i =
           (det_mask (xray_masks src_flux src_snr best_model t) ! i \<and> best_model ! i = ''PL'')"
    "bb_mask (xray_masks src_flux src_snr best_model t) ! i =
           (det_mask (xray_masks src_flux src_snr best_model t) ! i \<and> best_model ! i = ''BB'')"
    "src_det_mask (xray_masks src_flux src_snr best_model t) ! i =
           (det_mask (xray_masks src_flux src_snr best_model t) ! i \<and> best_model ! i = [])"
  using assms
  by (simp_all add: xray_masks_def Let_def np_or_def np_and_def np_not_def np_eq_def np_lt_def
      np_ge_def str_eq_def)

lemma fl_ge_not_lt: "fl_ge a b \<Longrightarrow> \<not> fl_lt a b"
  by (cases a; cases b) (auto simp: fl_ge_def)

lemma fl_lt_mono: "fl_lt a (Fin t1) \<Longrightarrow> t1 \<le> t2 \<Longrightarrow> fl_lt a (Fin t2)"
  by (cases a) auto

lemma fl_ge_mono: "fl_ge a (Fin t2) \<Longrightarrow> t1 \<le> t2 \<Longrightarrow> fl_ge a (Fin t1)"
  by (cases a) (auto simp: fl_ge_def)


lemma group_iff: "i \<in> group sel \<longleftrightarrow> i < length sel \<and> sel ! i"
  by (auto simp: group_def)

text \<open>
  Claim C4. The detection mask as the code computes it,
  \<open>(src_snr >= snr_threshold) & ~((src_flux == 0) | (src_snr < snr_threshold))\<close>, is the
  mask \<open>(src_snr >= snr_threshold) & (src_flux != 0)\<close>, for every table and every
  threshold, NaN cells included.
\<close>
theorem det_mask_equiv:
  assumes "length src_snr = length src_flux"
  shows "det_mask (xray_masks src_flux src_snr best_model t) =
           np_and (np_ge src_snr (Fin t))
             (np_not (np_or (np_eq src_flux (Fin 0)) (np_lt src_snr (Fin t)))) \<and>
         det_mask (xray_masks src_flux src_snr best_model t) =
           np_and (np_ge src_snr (Fin t)) (np_ne src_flux (Fin 0))"
proof
  show "det_mask (xray_masks src_flux src_snr best_model t) =
           np_and (np_ge src_snr (Fin t))
             (np_not (np_or (np_eq src_flux (Fin 0)) (np_lt src_snr (Fin t))))"
    by (simp add: xray_masks_def Let_def)
next
  show "det_mask (xray_masks src_flux src_snr best_model t) =
           np_and (np_ge src_snr (Fin t)) (np_ne src_flux (Fin 0))"
  proof (rule nth_equalityI)
    show "length (det_mask (xray_masks src_flux src_snr best_model t)) =
          length (np_and (np_ge src_snr (Fin t)) (np_ne src_flux (Fin 0)))"
      using assms
      by (simp add: xray_masks_def Let_def np_or_def np_and_def np_not_def np_eq_def np_lt_def
          np_ge_def np_ne_def)
  next
    fix i
    assume "i < length (det_mask (xray_masks src_flux src_snr best_model t))"
    then have i: "i < length src_flux"
      using assms
      by (simp add: xray_masks_def Let_def np_or_def np_and_def np_not_def np_eq_def np_lt_def
          np_ge_def)
    have "np_and (np_ge src_snr (Fin t)) (np_ne src_flux (Fin 0)) ! i =
          (fl_ge (src_snr ! i) (Fin t) \<and> fl_ne (src_flux ! i) (Fin 0))"
      using assms i by (simp add: np_and_def np_ge_def np_ne_def)
    then show "det_mask (xray_masks src_flux src_snr best_model t) ! i =
          np_and (np_ge src_snr (Fin t)) (np_ne src_flux (Fin 0)) ! i"
      using det_mask_nth [OF assms i] fl_ge_not_lt [of "src_snr ! i" "Fin t"]
      by (auto simp: fl_ne_def)
  qed
qed

text \<open>
  Claim C2. A record whose \<open>src_flux\<close> is 0 is an upper limit whatever its SNR and
  whatever the threshold: it is in the upper-limit mask and in no detection mask.
\<close>
theorem zero_flux_upper_limit:
  assumes "length src_snr = length src_flux" and "length best_model = length src_flux"
    and "i < length src_flux" and "src_flux ! i = Fin 0"
  shows "ul_mask (xray_masks src_flux src_snr best_model t) ! i \<and>
         \<not> det_mask (xray_masks src_flux src_snr best_model t) ! i \<and>
         \<not> pl_mask (xray_masks src_flux src_snr best_model t) ! i \<and>
         \<not> bb_mask (xray_masks src_flux src_snr best_model t) ! i \<and>
         \<not> src_det_mask (xray_masks src_flux src_snr best_model t) ! i"
  using assms
  by (simp add: ul_mask_nth det_mask_nth sub_mask_nth)

text \<open>
  Claim C3. For thresholds \<open>t1 \<le> t2\<close>, a record that is a detection at \<open>t2\<close> is a
  detection at \<open>t1\<close>, and a record that is an upper limit at \<open>t1\<close> is an upper limit at
  \<open>t2\<close>.
\<close>
theorem threshold_monotone:
  assumes "length src_snr = length src_flux" and "i < length src_flux" and "t1 \<le> t2"
  shows "(det_mask (xray_masks src_flux src_snr best_model t2) ! i \<longrightarrow>
            det_mask (xray_masks src_flux src_snr best_model t1) ! i) \<and>
         (ul_mask (xray_masks src_flux src_snr best_model t1) ! i \<longrightarrow>
            ul_mask (xray_masks src_flux src_snr best_model t2) ! i)"
proof -
  have a: "fl_lt (src_snr ! i) (Fin t1) \<Longrightarrow> fl_lt (src_snr ! i) (Fin t2)"
    using assms(3) by (rule fl_lt_mono [rotated])
  have b: "fl_ge (src_snr ! i) (Fin t2) \<Longrightarrow> fl_ge (src_snr ! i) (Fin t1)"
    using assms(3) by (rule fl_ge_mono [rotated])
  have c: "fl_ge (src_snr ! i) (Fin t1) \<Longrightarrow> \<not> fl_lt (src_snr ! i) (Fin t1)"
    by (rule fl_ge_not_lt)
  show ?thesis
    using a b c by (auto simp: ul_mask_nth [OF assms(1,2)] det_mask_nth [OF assms(1,2)])
qed

text \<open>
  Claim C10. Whatever the labels are, the four plotted groups (raw detections, power-law
  detections, blackbody detections, upper limits) are pairwise disjoint sets of rows.
\<close>
theorem groups_disjoint:
  assumes "length src_snr = length src_flux" and "length best_model = length src_flux"
  shows "let m = xray_masks src_flux src_snr best_model t in
         group (src_det_mask m) \<inter> group (pl_mask m) = {} \<and>
         group (src_det_mask m) \<inter> group (bb_mask m) = {} \<and>
         group (src_det_mask m) \<inter> group (ul_mask m) = {} \<and>
         group (pl_mask m) \<inter> group (bb_mask m) = {} \<and>
         group (pl_mask m) \<inter> group (ul_mask m) = {} \<and>
         group (bb_mask m) \<inter> group (ul_mask m) = {}"
proof -
  have "\<And>i. i < length src_flux \<Longrightarrow>
       \<not> (det_mask (xray_masks src_flux src_snr best_model t) ! i \<and>
          ul_mask (xray_masks src_flux src_snr best_model t) ! i)"
    using assms by (auto simp: ul_mask_nth det_mask_nth)
  then show ?thesis
    using assms
    by (auto simp: Let_def group_iff mask_lengths sub_mask_nth)
qed

lemma best_model_raw_examples: "best_model_raw [Some [CHR ''p'', CHR ''l'', CHR 0xA0], Some [CHR 0x85, CHR ''b'', CHR ''B''],
     Some [CHR 0xDF, CHR 0xE9, CHR 0xF7, CHR 0xFF], None, Some '' none ''] =
   [''PL'', ''BB'', [CHR ''S'', CHR ''S'', CHR 0xC9, CHR 0xF7, CHR 0xFF], [], ''NONE'']"
  by (simp add: best_model_raw_def strip_def upper_def upper_char_def is_space_def fillna_def
      lower_letters_def upper_letters_def)

text \<open>
  Every record with a numeric SNR is an upper limit or a detection, and it is in exactly
  one group as soon as it is an upper limit or its label is \<open>PL\<close>, \<open>BB\<close> or empty. A
  record with nonzero flux whose SNR cell is NaN is in neither mask.
\<close>

lemma fl_lt_or_ge: "a \<noteq> NaN \<Longrightarrow> fl_lt a (Fin t) \<or> fl_ge a (Fin t)"
  by (cases a) (auto simp: fl_ge_def)

lemma numeric_snr_covered:
  assumes "length src_snr = length src_flux" and "i < length src_flux"
    and "src_snr ! i \<noteq> NaN"
  shows "ul_mask (xray_masks src_flux src_snr best_model t) ! i \<or>
         det_mask (xray_masks src_flux src_snr best_model t) ! i"
  using fl_lt_or_ge [OF assms(3), of t]
  by (auto simp: ul_mask_nth [OF assms(1,2)] det_mask_nth [OF assms(1,2)] dest: fl_ge_not_lt)

lemma group_count_eq:
  assumes "length src_snr = length src_flux" and "length best_model = length src_flux"
    and "i < length src_flux"
  shows "group_count (xray_masks src_flux src_snr best_model t) i =
         (if ul_mask (xray_masks src_flux src_snr best_model t) ! i \<or>
             det_mask (xray_masks src_flux src_snr best_model t) ! i \<and>
             best_model ! i \<in> {''PL'', ''BB'', []}
          then 1 else 0)"
  using fl_ge_not_lt [of "src_snr ! i" "Fin t"]
  by (auto simp: group_count_def sub_mask_nth [OF assms]
      det_mask_nth [OF assms(1,3)] ul_mask_nth [OF assms(1,3)])

lemma nan_snr_in_no_group:
  "group_count (xray_masks [Fin 2] [NaN] [''PL''] 3) 0 = 0"
  by (simp add: xray_masks_def Let_def np_or_def np_and_def np_not_def np_eq_def np_lt_def
      np_ge_def str_eq_def fl_ge_def group_count_def)

text \<open>
  Claim C1. The classification is to be a total partition, with a detection whose label
  is neither \<open>PL\<close> nor \<open>BB\<close> in the raw-detection group. The code misses this: the
  raw-detection mask is \<open>det_mask & (best_model_raw == '')\<close>, so a detection with another
  label is in none of the four groups. For one record with flux 1, SNR 5 and label
  \<open>none\<close> at threshold 3, the record is a detection and every plotted array is empty.
\<close>
theorem other_label_detection_in_no_group:
  "best_model_raw [Some ''none''] = [''NONE''] \<and>
   det_mask (xray_masks [Fin 1] [Fin 5] (best_model_raw [Some ''none'']) 3) = [True] \<and>
   group_count (xray_masks [Fin 1] [Fin 5] (best_model_raw [Some ''none'']) 3) 0 = 0 \<and>
   xray_lightcurve
     \<lparr>nrows = 1,
      fcols = [(''mjd_start'', [Fin 58000]), (''mjd_stop'', [Fin 58002]),
               (''src_flux'', [Fin 1]), (''src_flux_errinf'', [Fin 0.1]),
               (''src_flux_errsup'', [Fin 0.1]), (''src_flux_SNR'', [Fin 5])],
      scols = [(''best_model'', [Some ''none''])]\<rparr> 3 =
   Inr \<lparr>mjd_src = [], flux_src = [], errlo_src = [], errhi_src = [],
        mjd_pl = [], flux_pl = [], errlo_pl = [], errhi_pl = [],
        mjd_bb = [], flux_bb = [], errlo_bb = [], errhi_bb = [],
        mjd_ulims = [], ulims = []\<rparr>"
proof -
  have l: "best_model_raw [Some ''none''] = [''NONE'']"
    by (simp add: best_model_raw_def strip_def upper_def upper_char_def is_space_def
        fillna_def lower_letters_def upper_letters_def)
  have m: "xray_masks [Fin 1] [Fin 5] [''NONE''] 3 =
      \<lparr>ul_mask = [False], det_mask = [True], pl_mask = [False], bb_mask = [False],
       src_det_mask = [False]\<rparr>"
    by (simp add: xray_masks_def Let_def np_or_def np_and_def np_not_def np_eq_def np_lt_def
        np_ge_def str_eq_def fl_ge_def)
  have d: "det_mask (xray_masks [Fin 1] [Fin 5] (best_model_raw [Some ''none'']) 3) = [True]"
    by (simp add: l m)
  have g: "group_count (xray_masks [Fin 1] [Fin 5] (best_model_raw [Some ''none'']) 3) 0 = 0"
    by (simp add: l m group_count_def)
  have x: "xray_lightcurve
     \<lparr>nrows = 1,
      fcols = [(''mjd_start'', [Fin 58000]), (''mjd_stop'', [Fin 58002]),
               (''src_flux'', [Fin 1]), (''src_flux_errinf'', [Fin 0.1]),
               (''src_flux_errsup'', [Fin 0.1]), (''src_flux_SNR'', [Fin 5])],
      scols = [(''best_model'', [Some ''none''])]\<rparr> 3 =
   Inr \<lparr>mjd_src = [], flux_src = [], errlo_src = [], errhi_src = [],
        mjd_pl = [], flux_pl = [], errlo_pl = [], errhi_pl = [],
        mjd_bb = [], flux_bb = [], errlo_bb = [], errhi_bb = [],
        mjd_ulims = [], ulims = []\<rparr>"
    by (simp add: xray_lightcurve_def fcol_def scol_def fcol_or_zeros_def np_zeros_def
        Let_def l m np_select_def)
  from l d g x show ?thesis
    by blast
qed

theorem det_mask_equiv_witness:
  "det_mask (xray_masks [Fin 2, Fin 0, NaN] [Fin 5, Fin 5, Fin 1] [''PL'', ''PL'', []] 3) =
     np_and (np_ge [Fin 5, Fin 5, Fin 1] (Fin 3)) (np_ne [Fin 2, Fin 0, NaN] (Fin 0)) \<and>
   np_and (np_ge [Fin 5, Fin 5, Fin 1] (Fin 3)) (np_ne [Fin 2, Fin 0, NaN] (Fin 0)) =
     [True, False, False]"
proof -
  have "np_and (np_ge [Fin 5, Fin 5, Fin 1] (Fin 3)) (np_ne [Fin 2, Fin 0, NaN] (Fin 0)) =
     [True, False, False]"
    by (simp add: np_and_def np_ge_def np_ne_def fl_ge_def fl_ne_def)
  moreover have "det_mask
      (xray_masks [Fin 2, Fin 0, NaN] [Fin 5, Fin 5, Fin 1] [''PL'', ''PL'', []] 3) =
     np_and (np_ge [Fin 5, Fin 5, Fin 1] (Fin 3)) (np_ne [Fin 2, Fin 0, NaN] (Fin 0))"
    by (rule det_mask_equiv [THEN conjunct2]) simp
  ultimately show ?thesis
    by (rule conjI [rotated])
qed

theorem zero_flux_upper_limit_witness:
  "ul_mask (xray_masks [Fin 0] [Fin 1000] [''PL''] 3) ! 0 \<and>
   \<not> det_mask (xray_masks [Fin 0] [Fin 1000] [''PL''] 3) ! 0 \<and>
   \<not> pl_mask (xray_masks [Fin 0] [Fin 1000] [''PL''] 3) ! 0 \<and>
   \<not> bb_mask (xray_masks [Fin 0] [Fin 1000] [''PL''] 3) ! 0 \<and>
   \<not> src_det_mask (xray_masks [Fin 0] [Fin 1000] [''PL''] 3) ! 0"
  using zero_flux_upper_limit [of "[Fin 1000]" "[Fin 0]" "[''PL'']" 0 3]
  by simp

theorem threshold_monotone_witness:
  "det_mask (xray_masks [Fin 2, Fin 2] [Fin 5, Fin 1] [''PL'', ''BB''] 3) ! 0 \<and>
   det_mask (xray_masks [Fin 2, Fin 2] [Fin 5, Fin 1] [''PL'', ''BB''] 2) ! 0 \<and>
   ul_mask (xray_masks [Fin 2, Fin 2] [Fin 5, Fin 1] [''PL'', ''BB''] 2) ! 1 \<and>
   ul_mask (xray_masks [Fin 2, Fin 2] [Fin 5, Fin 1] [''PL'', ''BB''] 3) ! 1"
proof -
  have d: "det_mask (xray_masks [Fin 2, Fin 2] [Fin 5, Fin 1] [''PL'', ''BB''] 3) ! 0"
    by (simp add: xray_masks_def Let_def np_or_def np_and_def np_not_def np_eq_def np_lt_def
        np_ge_def fl_ge_def)
  have u: "ul_mask (xray_masks [Fin 2, Fin 2] [Fin 5, Fin 1] [''PL'', ''BB''] 2) ! 1"
    by (simp add: xray_masks_def Let_def np_or_def np_eq_def np_lt_def)
  show ?thesis
    using d u
      threshold_monotone [of "[Fin 5, Fin 1]" "[Fin 2, Fin 2]" 0 2 3 "[''PL'', ''BB'']"]
      threshold_monotone [of "[Fin 5, Fin 1]" "[Fin 2, Fin 2]" 1 2 3 "[''PL'', ''BB'']"]
    by simp
qed

theorem groups_disjoint_witness:
  "let m = xray_masks [Fin 2, Fin 0] [Fin 5, Fin 5] [''PL'', ''XY''] 3 in
   0 \<in> group (pl_mask m) \<and> 1 \<in> group (ul_mask m) \<and>
   group (pl_mask m) \<inter> group (ul_mask m) = {}"
proof -
  have a: "0 \<in> group (pl_mask (xray_masks [Fin 2, Fin 0] [Fin 5, Fin 5] [''PL'', ''XY''] 3))"
    by (simp add: group_iff xray_masks_def Let_def np_or_def np_and_def np_not_def np_eq_def
        np_lt_def np_ge_def str_eq_def fl_ge_def)
  have b: "1 \<in> group (ul_mask (xray_masks [Fin 2, Fin 0] [Fin 5, Fin 5] [''PL'', ''XY''] 3))"
    by (simp add: group_iff xray_masks_def Let_def np_or_def np_eq_def np_lt_def)
  show ?thesis
    using a b groups_disjoint [of "[Fin 5, Fin 5]" "[Fin 2, Fin 0]" "[''PL'', ''XY'']" 3]
    by (simp add: Let_def)
qed

section \<open>Properties of the unit conversions\<close>

text \<open>
  Claim C5. On each of the six filter codes of the zero-point table
  \<open>swift_vega_to_ab\<close> returns the Vega magnitude plus the AB zero point minus the Vega
  zero point of that filter, and it fails, with the KeyError of the filter code, exactly
  when the code is not one of the six.
\<close>
theorem swift_vega_to_ab_table:
  "swift_vega_to_ab m ''vv'' = Inr (m + (17.88 - 17.89)) \<and>
   swift_vega_to_ab m ''bb'' = Inr (m + (18.98 - 19.11)) \<and>
   swift_vega_to_ab m ''uu'' = Inr (m + (19.36 - 18.34)) \<and>
   swift_vega_to_ab m ''w1'' = Inr (m + (18.95 - 17.44)) \<and>
   swift_vega_to_ab m ''m2'' = Inr (m + (18.54 - 16.85)) \<and>
   swift_vega_to_ab m ''w2'' = Inr (m + (19.11 - 17.38)) \<and>
   (swift_vega_to_ab m filt = Inl (KeyError filt)) = (filt \<notin> set uvot_filters) \<and>
   isl (swift_vega_to_ab m filt) = (filt \<notin> set uvot_filters)"
  by (simp add: swift_vega_to_ab_def dict_get_def zeropoints_new_def uvot_filters_def)

theorem swift_vega_to_ab_table_witness:
  "swift_vega_to_ab 15 ''uu'' = Inr 16.02 \<and>
   swift_vega_to_ab 15 ''white'' = Inl (KeyError ''white'')"
  using swift_vega_to_ab_table [of 15 "''white''"]
  by (simp add: uvot_filters_def)

text \<open>
  Claim C6. \<open>AB_magnitude_to_flux mag err\<close> returns the flux
  \<open>3631 \<times> 10^(-0.4 mag)\<close> and the error \<open>flux \<times> ln 10 \<times> 0.4 \<times> err\<close>, and at
  \<open>(0, 0)\<close> it returns \<open>(3631, 0)\<close>.
\<close>
theorem AB_magnitude_to_flux_formula:
  "fst (AB_magnitude_to_flux mag err) = 3631 * 10 powr (- 0.4 * mag) \<and>
   snd (AB_magnitude_to_flux mag err) = fst (AB_magnitude_to_flux mag err) * ln 10 * 0.4 * err \<and>
   AB_magnitude_to_flux 0 0 = (3631, 0)"
  by (simp add: AB_magnitude_to_flux_def Let_def)

section \<open>Properties of the rest-frame transform\<close>

lemma fl_div_one: "fl_div w (Fin 1) = w"
  by (cases w) simp_all

text \<open>
  Claim C7. For a redshift \<open>z\<close> with \<open>1 + z \<noteq> 0\<close> every observed wavelength \<open>w\<close>
  becomes \<open>w / (1 + z)\<close>. At redshift 0 the wavelengths are unchanged, \<open>6562.8\<close> at
  redshift 1 becomes \<open>3281.4\<close>, and the intensities are passed on as they are.
\<close>
theorem rest_wavelength:
  "(1 + z \<noteq> 0 \<longrightarrow>
      wavelength_rest (map Fin ws) (Fin z) = map (\<lambda>w. Fin (w / (1 + z))) ws) \<and>
   wavelength_rest wavelength_obs (Fin 0) = wavelength_obs \<and>
   wavelength_rest [Fin 6562.8] (Fin 1) = [Fin 3281.4] \<and>
   snd (spectrum_trace wavelength_obs intensity zz) = intensity \<and>
   fst (spectrum_trace wavelength_obs intensity zz) = wavelength_rest wavelength_obs zz"
  by (simp add: wavelength_rest_def spectrum_trace_def fl_div_one)

theorem rest_wavelength_witness:
  "wavelength_rest (map Fin [6562.8, 4861.3]) (Fin 1) = [Fin 3281.4, Fin 2430.65]"
  using rest_wavelength [of 1 "[6562.8, 4861.3]"]
  by simp

text \<open>
  Claim C9. When the row has no redshift (no such field, or an empty cell) or a text
  that \<open>float\<close> rejects, the redshift is 0 and the plotted wavelengths are the observed
  ones; \<open>redshift\<close> always returns a value, never an error.
\<close>
theorem redshift_fallback:
  assumes "map_of row ''Redshift'' = None \<or>
           map_of row ''Redshift'' = Some (Float NaN) \<or>
           (\<exists>s. map_of row ''Redshift'' = Some (Str s) \<and> parse s = None)"
  shows "redshift parse row = Fin 0 \<and>
         spectrum_trace wavelength_obs intensity (redshift parse row) =
           (wavelength_obs, intensity)"
proof -
  have z: "redshift parse row = Fin 0"
    using assms by (auto simp: redshift_def dict_get_def notna_def py_float_def)
  have "wavelength_rest wavelength_obs (Fin 0) = wavelength_obs"
    by (simp add: wavelength_rest_def fl_div_one)
  with z show ?thesis
    by (simp add: spectrum_trace_def)
qed

theorem redshift_fallback_witness:
  "redshift (\<lambda>s. if s = ''0.5'' then Some (Fin 0.5) else None)
     [(''AT name'', Str ''AT2019dsg''), (''Redshift'', Str ''unknown'')] = Fin 0 \<and>
   spectrum_trace [Fin 6562.8, NaN] [Fin 1, Fin 2]
     (redshift (\<lambda>s. if s = ''0.5'' then Some (Fin 0.5) else None)
        [(''AT name'', Str ''AT2019dsg''), (''Redshift'', Str ''unknown'')]) =
     ([Fin 6562.8, NaN], [Fin 1, Fin 2])"
  by (rule redshift_fallback) simp

section \<open>Missing optional columns\<close>

lemma fcol_set_column: "k \<noteq> c \<Longrightarrow> fcol (set_column df c xs) k = fcol df k"
  by (simp add: fcol_def set_column_def update_conv')

lemma scol_set_column: "scol (set_column df c xs) k = scol df k"
  by (simp add: scol_def set_column_def)

lemma fcol_or_zeros_set_column:
  "map_of (fcols df) c = None \<Longrightarrow>
   fcol_or_zeros (set_column df c (np_zeros (nrows df))) k = fcol_or_zeros df k"
  by (simp add: fcol_or_zeros_def set_column_def update_conv' split: option.splits)

lemma optional_not_required:
  "c \<in> set optional_columns \<Longrightarrow> k \<in> set required_columns \<Longrightarrow> k \<noteq> c"
  by (auto simp: optional_columns_def required_columns_def)

lemma xray_lightcurve_has_required:
  assumes "has_required df"
  shows "\<exists>pts. xray_lightcurve df t = Inr pts"
proof -
  from assms obtain a b c d e l where
    "map_of (fcols df) ''mjd_start'' = Some a" "map_of (fcols df) ''mjd_stop'' = Some b"
    "map_of (fcols df) ''src_flux'' = Some c" "map_of (fcols df) ''src_flux_errinf'' = Some d"
    "map_of (fcols df) ''src_flux_errsup'' = Some e" "map_of (scols df) ''best_model'' = Some l"
    by (auto simp: has_required_def required_columns_def)
  then show ?thesis
    by (simp add: xray_lightcurve_def fcol_def scol_def Let_def)
qed

lemma xray_lightcurve_error:
  "xray_lightcurve df t = Inl e \<Longrightarrow>
   e \<in> KeyError ` (set required_columns \<union> {''best_model''})"
  by (auto simp: xray_lightcurve_def fcol_def scol_def Let_def required_columns_def
      split: option.splits)

text \<open>
  Claim C8. When an optional column (SNR, upper-limit flux, fitted fluxes and their
  errors) is absent, the light curve is the one of the same table with that column
  present and filled with zeros. The absence is not an error: no KeyError names the
  column, and a table with the required columns always yields the plotted groups.
\<close>
theorem missing_optional_column:
  assumes "c \<in> set optional_columns" and "map_of (fcols df) c = None"
  shows "xray_lightcurve df t = xray_lightcurve (set_column df c (np_zeros (nrows df))) t \<and>
         xray_lightcurve df t \<noteq> Inl (KeyError c) \<and>
         (has_required df \<longrightarrow> (\<exists>pts. xray_lightcurve df t = Inr pts))"
proof -
  have r: "\<And>k. k \<in> set required_columns \<Longrightarrow>
             fcol (set_column df c (np_zeros (nrows df))) k = fcol df k"
    using assms(1) by (simp add: fcol_set_column optional_not_required)
  have "xray_lightcurve (set_column df c (np_zeros (nrows df))) t = xray_lightcurve df t"
    unfolding xray_lightcurve_def
    by (simp add: r required_columns_def scol_set_column
        fcol_or_zeros_set_column [OF assms(2)] cong: sum.case_cong)
  moreover have "xray_lightcurve df t \<noteq> Inl (KeyError c)"
  proof
    assume "xray_lightcurve df t = Inl (KeyError c)"
    then have "c \<in> set required_columns \<union> {''best_model''}"
      by (auto dest: xray_lightcurve_error)
    with assms(1) show False
      by (auto simp: optional_columns_def required_columns_def)
  qed
  ultimately show ?thesis
    by (simp add: xray_lightcurve_has_required)
qed


theorem missing_optional_column_witness:
  "xray_lightcurve
     \<lparr>nrows = 2,
      fcols = [(''mjd_start'', [Fin 1, Fin 3]), (''mjd_stop'', [Fin 2, Fin 4]),
               (''src_flux'', [Fin 5, Fin 0]), (''src_flux_errinf'', [Fin 1, Fin 0]),
               (''src_flux_errsup'', [Fin 1, Fin 0])],
      scols = [(''best_model'', [Some ''PL'', None])]\<rparr> 3 =
   xray_lightcurve
     (set_column
        \<lparr>nrows = 2,
         fcols = [(''mjd_start'', [Fin 1, Fin 3]), (''mjd_stop'', [Fin 2, Fin 4]),
                  (''src_flux'', [Fin 5, Fin 0]), (''src_flux_errinf'', [Fin 1, Fin 0]),
                  (''src_flux_errsup'', [Fin 1, Fin 0])],
         scols = [(''best_model'', [Some ''PL'', None])]\<rparr>
        ''src_flux_SNR'' (np_zeros 2)) 3 \<and>
   (\<exists>pts. xray_lightcurve
     \<lparr>nrows = 2,
      fcols = [(''mjd_start'', [Fin 1, Fin 3]), (''mjd_stop'', [Fin 2, Fin 4]),
               (''src_flux'', [Fin 5, Fin 0]), (''src_flux_errinf'', [Fin 1, Fin 0]),
               (''src_flux_errsup'', [Fin 1, Fin 0])],
      scols = [(''best_model'', [Some ''PL'', None])]\<rparr> 3 = Inr pts)"
proof -
  let ?df = "\<lparr>nrows = 2,
      fcols = [(''mjd_start'', [Fin 1, Fin 3]), (''mjd_stop'', [Fin 2, Fin 4]),
               (''src_flux'', [Fin 5, Fin 0]), (''src_flux_errinf'', [Fin 1, Fin 0]),
               (''src_flux_errsup'', [Fin 1, Fin 0])],
      scols = [(''best_model'', [Some ''PL'', None])]\<rparr>"
  have o: "''src_flux_SNR'' \<in> set optional_columns"
    by (simp add: optional_columns_def)
  have a: "map_of (fcols ?df) ''src_flux_SNR'' = None"
    by simp
  have r: "has_required ?df"
    by (simp add: has_required_def required_columns_def)
  have n: "nrows ?df = 2"
    by simp
  show ?thesis
    using missing_optional_column [OF o a, of 3, unfolded n] r by blast
qed

end
